theory Spec2Isabelle
  imports Main
begin

section \<open>JavaScript values\<close>

text \<open>
  The primitive values that travel in events and in status fields. Numbers are the
  integer-valued ones; strings are lists of 8-bit characters.
\<close>

datatype jsval = JUndefined | JNull | JBool bool | JNum int | JStr string

text \<open>Truthiness, as \<open>!x\<close> and \<open>if (x)\<close> read it.\<close>

fun truthy :: "jsval \<Rightarrow> bool" where
  "truthy JUndefined = False"
| "truthy JNull = False"
| "truthy (JBool b) = b"
| "truthy (JNum n) = (n \<noteq> 0)"
| "truthy (JStr s) = (s \<noteq> [])"

definition digit_char :: "nat \<Rightarrow> char" where
  "digit_char d = ''0123456789'' ! d"

fun nat_digits :: "nat \<Rightarrow> string" where
  "nat_digits n = (if n < 10 then [digit_char n] else nat_digits (n div 10) @ [digit_char (n mod 10)])"

declare nat_digits.simps [simp del]

text \<open>\<open>String(x)\<close> and template interpolation \<open>`${x}`\<close>.\<close>

fun js_String :: "jsval \<Rightarrow> string" where
  "js_String JUndefined = ''undefined''"
| "js_String JNull = ''null''"
| "js_String (JBool b) = (if b then ''true'' else ''false'')"
| "js_String (JNum n) = (if n < 0 then CHR ''-'' # nat_digits (nat (- n)) else nat_digits (nat n))"
| "js_String (JStr s) = s"

definition upper_char :: "char \<Rightarrow> char" where
  "upper_char c = (case map_of (zip ''abcdefghijklmnopqrstuvwxyz'' ''ABCDEFGHIJKLMNOPQRSTUVWXYZ'') c of
                     None \<Rightarrow> c | Some u \<Rightarrow> u)"

text \<open>\<open>String.prototype.toUpperCase\<close> on ASCII text.\<close>

definition toUpperCase :: "string \<Rightarrow> string" where
  "toUpperCase s = map upper_char s"


section \<open>Errors\<close>

text \<open>
  Every \<open>throw\<close> of the modelled code is a value: the two error classes of the SDK with
  what they were constructed from, and the runtime's \<open>TypeError\<close> for a property read
  on \<open>null\<close> or \<open>undefined\<close> or a call of a missing method.
\<close>

datatype js_error =
    NexmoClientError string
  | NexmoApiError js_error
  | NetworkError jsval
  | TypeError

section \<open>Events\<close>

datatype audio_settings = AudioSettings (enabled: jsval)
datatype user_media = UserMedia (audio_settings: "audio_settings option")
datatype body_user = BodyUser (media: "user_media option")
datatype body_reason = BodyReason (reason_text: jsval) (sip_code: jsval)

type_synonym legs = "(jsval \<times> jsval) list"

record channel =
  ch_id :: jsval
  ch_knocking_id :: jsval
  ch_legs :: "legs option"

text \<open>
  The body of an inbound event, with the fields the modelled handlers read. An absent
  object-valued field is \<open>None\<close>; an absent primitive field is \<open>JUndefined\<close>.
\<close>

record event_body =
  channel :: "channel option"
  invited_by :: jsval
  user :: "body_user option"
  timestamp :: "(string \<rightharpoonup> jsval) option"
  reason :: "body_reason option"
  b_status :: jsval
  b_leg_id :: jsval
  audio :: jsval
  b_media :: jsval
  b_transferred_from :: jsval
  was_member :: jsval
  rtc_id :: jsval

record event =
  ev_type :: string
  ev_cid :: jsval
  ev_from :: jsval
  ev_id :: jsval
  ev_client_ref :: jsval
  ev_body :: event_body

section \<open>The object store\<close>

type_synonym ref = nat

record member =
  m_id :: jsval
  m_conversation :: ref
  callStatus :: jsval
  state :: jsval
  m_timestamp :: "(string \<rightharpoonup> jsval) option"
  m_channel :: "channel option"
  m_media :: jsval
  m_invited_by :: jsval
  transferred_to :: "ref option"
  transferred_from :: "ref option"

text \<open>The media session of a conversation: its legs (\<open>rtcObjects\<close>) and peer connection.\<close>

record media_session =
  rtcObjects :: "(jsval \<times> jsval) list"
  pc :: jsval

record conversation =
  conv_id :: jsval
  display_name :: jsval
  me :: "ref option"
  members :: "jsval \<rightharpoonup> ref"
  events :: "(jsval \<times> event) list"
  sequence_number :: int
  conv_media :: media_session

datatype call_direction = INBOUND | OUTBOUND

record nxmCall =
  status :: jsval
  direction :: call_direction
  call_conversation :: "ref option"
  call_from :: "ref option"
  call_to :: "(jsval \<rightharpoonup> ref) option"
  call_id :: jsval
  call_client_ref :: jsval
  knocking_id :: jsval
  transferred :: bool

datatype emitter = OnApplication | OnConversation ref

text \<open>One \<open>emit\<close>: where, the event name, and the object handed to the listeners.\<close>

datatype emission = Emit emitter string "ref option"

datatype request = Request string string

text \<open>
  The application with everything reachable from it. \<open>calls\<close>, \<open>call_draft_list\<close> and
  \<open>conversations\<close> hold references; the objects live in the three heaps, so that two
  keys holding the same reference are two keys of the same object. \<open>emitted\<close> collects
  every \<open>emit\<close>, \<open>log\<close> every logger line (level, text), \<open>network\<close> every request handed
  to \<open>sendNetworkRequest\<close>, all in order.
\<close>

record store =
  conversations :: "jsval \<rightharpoonup> ref"
  calls :: "jsval \<rightharpoonup> ref"
  call_draft_list :: "jsval \<rightharpoonup> ref"
  activeStreams :: "jsval list"
  conv_heap :: "ref \<Rightarrow> conversation"
  call_heap :: "ref \<Rightarrow> nxmCall"
  member_heap :: "ref \<Rightarrow> member"
  next_ref :: ref
  emitted :: "emission list"
  log :: "(string \<times> string) list"
  network :: "request list"

text \<open>How a method ends: it returns a value, or throws, in both cases in a new store.\<close>

datatype 'a outcome = Returns 'a store | Throws js_error store

section \<open>NXMCall: the call status state machine\<close>

datatype call_status =
  STARTED | RINGING | ANSWERED | COMPLETED | BUSY | TIMEOUT | UNANSWERED | REJECTED | FAILED

fun CALL_STATUS :: "call_status \<Rightarrow> string" where
  "CALL_STATUS STARTED = ''started''"
| "CALL_STATUS RINGING = ''ringing''"
| "CALL_STATUS ANSWERED = ''answered''"
| "CALL_STATUS COMPLETED = ''completed''"
| "CALL_STATUS BUSY = ''busy''"
| "CALL_STATUS TIMEOUT = ''timeout''"
| "CALL_STATUS UNANSWERED = ''unanswered''"
| "CALL_STATUS REJECTED = ''rejected''"
| "CALL_STATUS FAILED = ''failed''"

text \<open>The \<open>Map\<close> of \<open>Set\<close>s built in the constructor, keys and members in source order.\<close>

definition STATUS_PERMITTED_FLOW :: "(string \<times> string list) list" where
  "STATUS_PERMITTED_FLOW =
    [(''STARTED'', [CALL_STATUS RINGING, CALL_STATUS ANSWERED, CALL_STATUS FAILED,
                   CALL_STATUS TIMEOUT, CALL_STATUS UNANSWERED, CALL_STATUS REJECTED,
                   CALL_STATUS BUSY]),
     (''RINGING'', [CALL_STATUS ANSWERED, CALL_STATUS FAILED, CALL_STATUS TIMEOUT,
                   CALL_STATUS UNANSWERED, CALL_STATUS REJECTED, CALL_STATUS BUSY]),
     (''ANSWERED'', [CALL_STATUS COMPLETED, CALL_STATUS FAILED])]"

text \<open>\<open>set.has(status)\<close>: only a string can be a member of a set of strings.\<close>

fun set_has :: "string list \<Rightarrow> jsval \<Rightarrow> bool" where
  "set_has xs (JStr s) = (s \<in> set xs)"
| "set_has xs _ = False"

text \<open>
  \<open>_isValidStatusTransition\<close>. A falsy argument throws; a current status that is truthy
  but not a string has no \<open>toUpperCase\<close>, which is a \<open>TypeError\<close>.
\<close>

definition isValidStatusTransition :: "nxmCall \<Rightarrow> jsval \<Rightarrow> js_error + bool" where
  "isValidStatusTransition this st =
    (if \<not> truthy st then
       Inl (NexmoClientError (''Provide the status to validate the transition from '' @
              [CHR 0x27] @ js_String (status this) @ [CHR 0x27]))
     else if \<not> truthy (status this) then Inr True
     else (case status this of
        JStr cur \<Rightarrow>
          (let current_status = toUpperCase cur in
           case map_of STATUS_PERMITTED_FLOW current_status of
             None \<Rightarrow> Inr False
           | Some allowed \<Rightarrow>
               if status this = st then Inr False
               else Inr (set_has allowed st))
      | _ \<Rightarrow> Inl TypeError))"

text \<open>\<open>_setStatusAndEmit\<close> of the call at reference \<open>this\<close>.\<close>

definition setStatusAndEmit :: "ref \<Rightarrow> jsval \<Rightarrow> store \<Rightarrow> unit outcome" where
  "setStatusAndEmit this st \<sigma> =
    (case isValidStatusTransition (call_heap \<sigma> this) st of
       Inl e \<Rightarrow> Throws e \<sigma>
     | Inr False \<Rightarrow>
         Returns () (\<sigma>\<lparr>log := log \<sigma> @
           [(''warn'', ''status attempt switch from '' @ js_String (status (call_heap \<sigma> this)) @
                       '' to '' @ js_String st)]\<rparr>)
     | Inr True \<Rightarrow>
         Returns () (\<sigma>\<lparr>call_heap := (call_heap \<sigma>)(this := (call_heap \<sigma> this)\<lparr>status := st\<rparr>),
                       emitted := emitted \<sigma> @ [Emit OnApplication ''call:status:changed'' (Some this)]\<rparr>))"

text \<open>\<open>this.log.error(error)\<close>: the line the logger keeps of an error.\<close>

fun error_line :: "js_error \<Rightarrow> string" where
  "error_line (NexmoClientError m) = ''NexmoClientError: '' @ m"
| "error_line (NexmoApiError e) = ''NexmoApiError: '' @ error_line e"
| "error_line (NetworkError v) = ''NetworkError: '' @ js_String v"
| "error_line TypeError = ''TypeError''"

text \<open>
  \<open>_isEventFromMe\<close> of \<open>_handleStatusChange\<close>: with no conversation the event counts as
  ours; with a conversation whose \<open>me\<close> is \<open>null\<close> the read of \<open>me.id\<close> throws.
\<close>

definition isEventFromMe :: "store \<Rightarrow> nxmCall \<Rightarrow> event \<Rightarrow> js_error + bool" where
  "isEventFromMe \<sigma> this ev =
    (case call_conversation this of
       None \<Rightarrow> Inr True
     | Some cr \<Rightarrow>
        (case me (conv_heap \<sigma> cr) of
           None \<Rightarrow> Inl TypeError
         | Some mr \<Rightarrow> Inr (m_id (member_heap \<sigma> mr) = ev_from ev)))"

text \<open>The disambiguation shared by \<open>rtc:hangup\<close> and \<open>member:left\<close>.\<close>

definition unansweredOrRejected :: "bool \<Rightarrow> bool \<Rightarrow> call_status" where
  "unansweredOrRejected fromMe outbound =
    (if fromMe \<and> outbound \<or> \<not> fromMe \<and> \<not> outbound then UNANSWERED else REJECTED)"

text \<open>
  \<open>_handleStatusChange\<close> of the call at \<open>this\<close>. The \<open>member:joined\<close> handler awaits
  \<open>conversation.media.enable()\<close>; \<open>enable_result\<close> is how that promise settles
  (\<open>None\<close>: resolved, \<open>Some e\<close>: rejected with \<open>e\<close>), and the outcome is that of the
  handler's own promise once settled. With no conversation the read of
  \<open>this.conversation.media\<close> throws inside the \<open>try\<close>.
\<close>

definition handleStatusChange :: "ref \<Rightarrow> event \<Rightarrow> js_error option \<Rightarrow> store \<Rightarrow> unit outcome" where
  "handleStatusChange this ev enable_result \<sigma> =
    (case isEventFromMe \<sigma> (call_heap \<sigma> this) ev of
       Inl e \<Rightarrow> Throws e \<sigma>
     | Inr fromMe \<Rightarrow>
        (let outbound = (direction (call_heap \<sigma> this) = OUTBOUND);
             body = ev_body ev;
             st = status (call_heap \<sigma> this) in
         if ev_type ev = ''member:joined'' then
           (case channel body of
              None \<Rightarrow> Returns () \<sigma>
            | Some ch \<Rightarrow>
                if truthy (ch_knocking_id ch) then
                  (case (case call_conversation (call_heap \<sigma> this) of
                           None \<Rightarrow> Throws TypeError \<sigma>
                         | Some cv \<Rightarrow>
                            (case enable_result of
                               Some e \<Rightarrow> Throws e \<sigma>
                             | None \<Rightarrow> setStatusAndEmit this (JStr (CALL_STATUS STARTED)) \<sigma>)) of
                     Returns u \<sigma>' \<Rightarrow> Returns () \<sigma>'
                   | Throws error \<sigma>' \<Rightarrow>
                      (case setStatusAndEmit this (JStr (CALL_STATUS FAILED)) \<sigma>' of
                         Throws e2 \<sigma>'' \<Rightarrow> Throws e2 \<sigma>''
                       | Returns u \<sigma>'' \<Rightarrow>
                           Throws error (\<sigma>''\<lparr>log := log \<sigma>'' @ [(''error'', error_line error)]\<rparr>)))
                else Returns () \<sigma>)
         else if ev_type ev = ''member:invited'' then
           (if invited_by body = JNull then
              (case user body of
                 None \<Rightarrow> Throws TypeError \<sigma>
               | Some u \<Rightarrow>
                  (case media u of
                     None \<Rightarrow> Returns () \<sigma>
                   | Some m \<Rightarrow>
                      (case audio_settings m of
                         None \<Rightarrow> Returns () \<sigma>
                       | Some a \<Rightarrow> setStatusAndEmit this (JStr (CALL_STATUS STARTED)) \<sigma>)))
            else Returns () \<sigma>)
         else if ev_type ev = ''rtc:hangup'' then
           (if st = JStr (CALL_STATUS ANSWERED)
            then setStatusAndEmit this (JStr (CALL_STATUS COMPLETED)) \<sigma>
            else setStatusAndEmit this (JStr (CALL_STATUS (unansweredOrRejected fromMe outbound))) \<sigma>)
         else if ev_type ev = ''member:left'' then
           (case timestamp body of
              None \<Rightarrow> Throws TypeError \<sigma>
            | Some ts \<Rightarrow>
                if ts ''joined'' = None \<and> st \<noteq> JStr (CALL_STATUS ANSWERED)
                then setStatusAndEmit this (JStr (CALL_STATUS (unansweredOrRejected fromMe outbound))) \<sigma>
                else Returns () \<sigma>)
         else if ev_type ev = ''member:media'' then
           (if st \<noteq> JStr (CALL_STATUS ANSWERED) \<and> truthy (audio body) then
              (let \<sigma>1 = (case channel body of
                            Some ch \<Rightarrow>
                              if fromMe
                              then \<sigma>\<lparr>call_heap := (call_heap \<sigma>)
                                       (this := (call_heap \<sigma> this)\<lparr>call_id := ch_id ch\<rparr>)\<rparr>
                              else \<sigma>
                          | None \<Rightarrow> \<sigma>) in
               if (\<not> fromMe \<or> \<not> outbound) \<and> truthy (call_id (call_heap \<sigma>1 this))
               then setStatusAndEmit this (JStr (CALL_STATUS ANSWERED)) \<sigma>1
               else Returns () \<sigma>1)
            else Returns () \<sigma>)
         else if ev_type ev = ''sip:ringing'' then
           (if st \<noteq> JStr (CALL_STATUS RINGING)
            then setStatusAndEmit this (JStr (CALL_STATUS RINGING)) \<sigma>
            else Returns () \<sigma>)
         else if ev_type ev = ''sip:hangup'' then
           (case reason body of
              None \<Rightarrow> Throws TypeError \<sigma>
            | Some r \<Rightarrow>
                if sip_code r = JNum 486 then setStatusAndEmit this (JStr (CALL_STATUS BUSY)) \<sigma>
                else if sip_code r = JNum 487 then setStatusAndEmit this (JStr (CALL_STATUS TIMEOUT)) \<sigma>
                else if sip_code r = JNum 403 then setStatusAndEmit this (JStr (CALL_STATUS FAILED)) \<sigma>
                else Returns () \<sigma>)
         else if ev_type ev = ''knocking:delete:success'' then
           setStatusAndEmit this (JStr (CALL_STATUS UNANSWERED)) \<sigma>
         else Returns () \<sigma>))"

section \<open>Objects as their constructors leave them\<close>

definition new_member :: "ref \<Rightarrow> member" where
  "new_member conv =
    \<lparr>m_id = JUndefined, m_conversation = conv, callStatus = JNull, state = JUndefined,
     m_timestamp = None, m_channel = None, m_media = JUndefined, m_invited_by = JUndefined,
     transferred_to = None, transferred_from = None\<rparr>"

definition blank_conversation :: conversation where
  "blank_conversation =
    \<lparr>conv_id = JNull, display_name = JNull, me = None, members = Map.empty, events = [],
     sequence_number = 0, conv_media = \<lparr>rtcObjects = [], pc = JNull\<rparr>\<rparr>"

text \<open>\<open>new NXMCall(application)\<close>, with no conversation and no caller passed.\<close>

definition new_nxmCall :: nxmCall where
  "new_nxmCall =
    \<lparr>status = JNull, direction = INBOUND, call_conversation = None, call_from = None,
     call_to = None, call_id = JUndefined, call_client_ref = JUndefined,
     knocking_id = JUndefined, transferred = False\<rparr>"

text \<open>\<open>new Application(session)\<close>: empty maps, nothing emitted, logged or sent yet.\<close>

definition new_store :: store where
  "new_store =
    \<lparr>conversations = Map.empty, calls = Map.empty, call_draft_list = Map.empty,
     activeStreams = [], conv_heap = (\<lambda>r. blank_conversation), call_heap = (\<lambda>r. new_nxmCall),
     member_heap = (\<lambda>r. new_member 0), next_ref = 0, emitted = [], log = [], network = []\<rparr>"

section \<open>The permitted-flow table as the specification words it\<close>

fun permitted_flow_table :: "call_status option \<Rightarrow> call_status \<Rightarrow> bool" where
  "permitted_flow_table None to = True"
| "permitted_flow_table (Some STARTED) to =
     (to \<in> {RINGING, ANSWERED, FAILED, TIMEOUT, UNANSWERED, REJECTED, BUSY})"
| "permitted_flow_table (Some RINGING) to =
     (to \<in> {ANSWERED, FAILED, TIMEOUT, UNANSWERED, REJECTED, BUSY})"
| "permitted_flow_table (Some ANSWERED) to = (to \<in> {COMPLETED, FAILED})"
| "permitted_flow_table (Some _) to = False"

text \<open>The status field of a call that is uninitialised (\<open>None\<close>) or in a given status.\<close>

fun status_of :: "call_status option \<Rightarrow> jsval" where
  "status_of None = JNull"
| "status_of (Some s) = JStr (CALL_STATUS s)"

text \<open>The warning \<open>_setStatusAndEmit\<close> logs for a refused transition.\<close>

definition refused_line :: "jsval \<Rightarrow> jsval \<Rightarrow> string \<times> string" where
  "refused_line cur st =
    (''warn'', ''status attempt switch from '' @ js_String cur @ '' to '' @ js_String st)"

section \<open>Reading an outcome\<close>

fun threw :: "'a outcome \<Rightarrow> js_error option" where
  "threw (Returns v \<sigma>) = None"
| "threw (Throws e \<sigma>) = Some e"

fun final_store :: "'a outcome \<Rightarrow> store" where
  "final_store (Returns v \<sigma>) = \<sigma>"
| "final_store (Throws e \<sigma>) = \<sigma>"

text \<open>A fresh application whose call object at reference 0 is the given one.\<close>

definition store_with_call :: "nxmCall \<Rightarrow> store" where
  "store_with_call c = new_store\<lparr>call_heap := (call_heap new_store)(0 := c)\<rparr>"

text \<open>A status field that \<open>_isValidStatusTransition\<close> can read: falsy, or a string.\<close>

fun string_or_falsy :: "jsval \<Rightarrow> bool" where
  "string_or_falsy (JStr s) = True"
| "string_or_falsy v = (\<not> truthy v)"

section \<open>Fixtures: events with nothing but a type\<close>

definition blank_body :: event_body where
  "blank_body = \<lparr>channel = None, invited_by = JUndefined, user = None, timestamp = None,
     reason = None, b_status = JUndefined, b_leg_id = JUndefined, audio = JUndefined,
     b_media = JUndefined, b_transferred_from = JUndefined, was_member = JUndefined,
     rtc_id = JUndefined\<rparr>"

definition blank_event :: "string \<Rightarrow> event" where
  "blank_event ty = \<lparr>ev_type = ty, ev_cid = JUndefined, ev_from = JUndefined, ev_id = JUndefined,
     ev_client_ref = JUndefined, ev_body = blank_body\<rparr>"

text \<open>A \<open>member:media\<close> event with audio on and a channel carrying the leg id.\<close>

definition media_event :: "jsval \<Rightarrow> event" where
  "media_event leg =
     (blank_event ''member:media'')\<lparr>ev_body := blank_body\<lparr>audio := JBool True,
        channel := Some \<lparr>ch_id = leg, ch_knocking_id = JUndefined, ch_legs = None\<rparr>\<rparr>\<rparr>"

section \<open>The driving events as the specification words them\<close>

text \<open>
  \<open>rtc:hangup\<close>: COMPLETED from ANSWERED; otherwise UNANSWERED exactly when the event
  is local and the call outbound, or remote and the call inbound; REJECTED otherwise.
\<close>

definition rtc_hangup_status :: "call_status option \<Rightarrow> bool \<Rightarrow> bool \<Rightarrow> call_status" where
  "rtc_hangup_status from fromMe outbound =
    (if from = Some ANSWERED then COMPLETED
     else if (fromMe \<and> outbound) \<or> (\<not> fromMe \<and> \<not> outbound) then UNANSWERED
     else REJECTED)"

text \<open>
  \<open>member:media\<close>: the leg id the call holds after the capture step, which takes the
  id of the event's channel when the event is local and has a channel.
\<close>

definition media_leg_id :: "nxmCall \<Rightarrow> event \<Rightarrow> bool \<Rightarrow> jsval" where
  "media_leg_id c ev fromMe =
    (case channel (ev_body ev) of
       Some ch \<Rightarrow> if fromMe then ch_id ch else call_id c
     | None \<Rightarrow> call_id c)"

section \<open>Member\<close>









section \<open>Fixtures: a member as \<open>_normalise\<close> leaves it, and a leg status event\<close>




section \<open>Conversation\<close>

text \<open>\<open>Map.prototype.set\<close> on a map kept in insertion order.\<close>

fun map_set :: "('k \<times> 'v) list \<Rightarrow> 'k \<Rightarrow> 'v \<Rightarrow> ('k \<times> 'v) list" where
  "map_set [] k v = [(k, v)]"
| "map_set ((k', v') # rest) k v = (if k' = k then (k, v) # rest else (k', v') # map_set rest k v)"






text \<open>The parameters of \<open>Conversation.invite\<close>.\<close>

record invite_params =
  p_id :: jsval
  p_user_name :: jsval

text \<open>
  \<open>Conversation.invite\<close>. \<open>response\<close> is what the service answers to the request, if it
  is sent: the invited member's id, or an error. The request object is built inside the
  \<open>try\<close>, so a missing \<open>me\<close> is caught and wrapped like a failed request.
\<close>

definition invite ::
  "ref \<Rightarrow> invite_params option \<Rightarrow> js_error + jsval \<Rightarrow> store \<Rightarrow> ref outcome" where
  "invite this params response \<sigma> =
    (if (case params of None \<Rightarrow> True
         | Some p \<Rightarrow> \<not> truthy (p_id p) \<and> \<not> truthy (p_user_name p))
     then Throws (NexmoClientError ''error:invite:missing:params'') \<sigma>
     else
      (case me (conv_heap \<sigma> this) of
         None \<Rightarrow> Throws (NexmoApiError TypeError) \<sigma>
       | Some mr \<Rightarrow>
          (let \<sigma>1 = \<sigma>\<lparr>network := network \<sigma> @
                  [Request ''POST'' (''conversations/'' @ js_String (conv_id (conv_heap \<sigma> this)) @
                                     ''/members'')]\<rparr> in
           case response of
             Inl e \<Rightarrow> Throws (NexmoApiError e) \<sigma>1
           | Inr mid \<Rightarrow>
               Returns (next_ref \<sigma>1)
                 (\<sigma>1\<lparr>conv_heap := (conv_heap \<sigma>1)
                        (this := (conv_heap \<sigma>1 this)
                           \<lparr>members := (members (conv_heap \<sigma>1 this))(mid \<mapsto> next_ref \<sigma>1)\<rparr>),
                      member_heap := (member_heap \<sigma>1)
                        (next_ref \<sigma>1 := (new_member this)\<lparr>m_id := mid,
                           m_channel := Some \<lparr>ch_id = JUndefined, ch_knocking_id = JUndefined,
                                               ch_legs = None\<rparr>\<rparr>),
                      next_ref := Suc (next_ref \<sigma>1)\<rparr>))))"

section \<open>Media\<close>

text \<open>
  \<open>Utils.validateDTMF\<close>: a string of 1 to 45 characters, each a digit, a letter
  \<open>a\<close> to \<open>d\<close> in either case, \<open>#\<close>, \<open>*\<close>, \<open>p\<close> or \<open>P\<close>.
\<close>

definition dtmf_chars :: "char list" where
  "dtmf_chars = ''0123456789abcdABCD#*pP''"

fun validateDTMF :: "jsval \<Rightarrow> bool" where
  "validateDTMF (JStr s) = (1 \<le> length s \<and> length s \<le> 45 \<and> (\<forall>c \<in> set s. c \<in> set dtmf_chars))"
| "validateDTMF _ = False"

text \<open>
  \<open>Media.sendDTMF\<close> of the media session of conversation \<open>this\<close>. Everything is inside
  one \<open>try\<close> whose \<open>catch\<close> wraps what was thrown in a \<open>NexmoApiError\<close>.
\<close>

definition sendDTMF :: "ref \<Rightarrow> jsval \<Rightarrow> js_error + jsval \<Rightarrow> store \<Rightarrow> event outcome" where
  "sendDTMF this digit response \<sigma> =
    (if \<not> validateDTMF digit
     then Throws (NexmoApiError (NexmoClientError ''error:audio:dtmf:invalid-digit'')) \<sigma>
     else
      (case me (conv_heap \<sigma> this) of
         None \<Rightarrow> Throws (NexmoApiError TypeError) \<sigma>
       | Some mr \<Rightarrow>
          (let \<sigma>1 = \<sigma>\<lparr>network := network \<sigma> @
                  [Request ''POST'' (''conversations/'' @ js_String (conv_id (conv_heap \<sigma> this)) @
                                     ''/events'')]\<rparr> in
           case response of
             Inl e \<Rightarrow> Throws (NexmoApiError e) \<sigma>1
           | Inr eid \<Rightarrow>
              (let dtmfEvent = (blank_event ''audio:dtmf'')
                     \<lparr>ev_cid := conv_id (conv_heap \<sigma>1 this),
                      ev_from := m_id (member_heap \<sigma>1 mr), ev_id := eid\<rparr> in
               Returns dtmfEvent
                 (\<sigma>1\<lparr>conv_heap := (conv_heap \<sigma>1)
                        (this := (conv_heap \<sigma>1 this)
                           \<lparr>events := map_set (events (conv_heap \<sigma>1 this)) eid dtmfEvent\<rparr>)\<rparr>)))))"

text \<open>\<open>Media._enableMediaTracks\<close>: every track's \<open>enabled\<close> becomes the given value.\<close>

definition enableMediaTracks :: "bool list \<Rightarrow> bool \<Rightarrow> bool list" where
  "enableMediaTracks tracks en = map (\<lambda>t. en) tracks"

text \<open>
  \<open>Media._setMediaTracksAndMute\<close>. \<open>tracks\<close> holds the \<open>enabled\<close> flag of each audio
  track handed in; the result is the flags afterwards and how the call ends.
\<close>

definition setMediaTracksAndMute ::
  "ref \<Rightarrow> jsval \<Rightarrow> bool list \<Rightarrow> bool \<Rightarrow> string \<Rightarrow> js_error + jsval \<Rightarrow> store
     \<Rightarrow> bool list \<times> jsval outcome" where
  "setMediaTracksAndMute this rtc tracks mute mediaType response \<sigma> =
    (let tracks1 = enableMediaTracks tracks (\<not> mute) in
     case me (conv_heap \<sigma> this) of
       None \<Rightarrow> (enableMediaTracks tracks1 mute, Throws (NexmoApiError TypeError) \<sigma>)
     | Some mr \<Rightarrow>
        (let \<sigma>1 = \<sigma>\<lparr>network := network \<sigma> @
                [Request ''POST'' (''conversations/'' @ js_String (conv_id (conv_heap \<sigma> this)) @
                                   ''/events'')]\<rparr> in
         case response of
           Inr v \<Rightarrow> (tracks1, Returns v \<sigma>1)
         | Inl e \<Rightarrow> (enableMediaTracks tracks1 mute, Throws (NexmoApiError e) \<sigma>1)))"

text \<open>A fresh application whose conversation 0 has the member at reference 0 as \<open>me\<close>.\<close>

definition store_with_me :: store where
  "store_with_me =
     new_store\<lparr>conv_heap := (conv_heap new_store)(0 := blank_conversation\<lparr>me := Some 0\<rparr>)\<rparr>"

section \<open>NXMCall: binding to a conversation, server calls\<close>

text \<open>
  \<open>_setupConversationObject\<close>: nothing without a conversation; otherwise the call takes
  it, and when the conversation has its own member, \<open>to\<close> becomes a copy of the members
  less the caller. (The listeners it attaches are not part of the store.)
\<close>

definition setupConversationObject :: "ref \<Rightarrow> ref option \<Rightarrow> store \<Rightarrow> store" where
  "setupConversationObject this conv \<sigma> =
    (case conv of
       None \<Rightarrow> \<sigma>
     | Some cr \<Rightarrow>
        (let c = call_heap \<sigma> this; cv = conv_heap \<sigma> cr in
         case me cv of
           None \<Rightarrow>
             \<sigma>\<lparr>call_heap := (call_heap \<sigma>)(this := c\<lparr>call_conversation := Some cr\<rparr>),
               log := log \<sigma> @ [(''warn'', ''missing own member object'')]\<rparr>
         | Some mr \<Rightarrow>
             \<sigma>\<lparr>call_heap := (call_heap \<sigma>)
                 (this := c\<lparr>call_conversation := Some cr,
                           call_to := Some (case call_from c of
                                              None \<Rightarrow> members cv
                                            | Some fr \<Rightarrow> (members cv)(m_id (member_heap \<sigma> fr) := None))\<rparr>)\<rparr>))"


section \<open>Application events\<close>


section \<open>RTC events\<close>

text \<open>\<open>Object.assign(target, source)\<close> on two objects kept as key-value lists.\<close>

definition object_assign :: "('k \<times> 'v) list \<Rightarrow> ('k \<times> 'v) list \<Rightarrow> ('k \<times> 'v) list" where
  "object_assign target source = fold (\<lambda>(k, v) acc. map_set acc k v) source target"

text \<open>
  The tail of \<open>_processRtcTransfer\<close>, run when the old conversation is known: mark the
  sender in the new conversation and copy over the media state the new side lacks.
\<close>

definition copyTransferredMedia :: "ref \<Rightarrow> ref option \<Rightarrow> event \<Rightarrow> store \<Rightarrow> unit outcome" where
  "copyTransferredMedia old_conversation new_conversation ev \<sigma> =
    (case new_conversation of
       None \<Rightarrow> Throws TypeError \<sigma>
     | Some nc \<Rightarrow>
        (case members (conv_heap \<sigma> nc) (ev_from ev) of
           None \<Rightarrow> Throws TypeError \<sigma>
         | Some mr \<Rightarrow>
            (let \<sigma>1 = \<sigma>\<lparr>member_heap := (member_heap \<sigma>)
                          (mr := (member_heap \<sigma> mr)\<lparr>transferred_from := Some old_conversation\<rparr>)\<rparr>;
                 old_media = conv_media (conv_heap \<sigma>1 old_conversation);
                 new_media = conv_media (conv_heap \<sigma>1 nc);
                 m1 = (if length (rtcObjects new_media) = 0 \<and> length (rtcObjects old_media) \<noteq> 0
                       then new_media\<lparr>rtcObjects := object_assign (rtcObjects new_media)
                                                         (rtcObjects old_media)\<rparr>
                       else new_media);
                 m2 = (if \<not> truthy (pc m1) \<and> truthy (pc old_media)
                       then m1\<lparr>pc := pc old_media\<rparr> else m1);
                 \<sigma>2 = \<sigma>1\<lparr>conv_heap := (conv_heap \<sigma>1)(nc := (conv_heap \<sigma>1 nc)\<lparr>conv_media := m2\<rparr>)\<rparr>;
                 \<sigma>3 = (if length (activeStreams \<sigma>2) = 0 \<and> length (activeStreams \<sigma>2) > 0
                       then \<sigma>2\<lparr>activeStreams := activeStreams \<sigma>2\<rparr> else \<sigma>2) in
             Returns () \<sigma>3)))"

text \<open>
  \<open>RtcEventHandler._processRtcTransfer\<close>. Marking the transferred member throws when
  the call has no conversation or the conversation has no such member.
\<close>

definition processRtcTransfer :: "event \<Rightarrow> store \<Rightarrow> unit outcome" where
  "processRtcTransfer ev \<sigma> =
    (let old_conversation = conversations \<sigma> (b_transferred_from (ev_body ev));
         new_conversation = conversations \<sigma> (ev_cid ev) in
     case calls \<sigma> (b_transferred_from (ev_body ev)) of
       None \<Rightarrow> Returns () (\<sigma>\<lparr>log := log \<sigma> @ [(''warn'', ''NXMCall transfer for unknown nxmCall'')]\<rparr>)
     | Some nxmCall \<Rightarrow>
        (case call_conversation (call_heap \<sigma> nxmCall) of
           None \<Rightarrow> Throws TypeError \<sigma>
         | Some cc \<Rightarrow>
            (case members (conv_heap \<sigma> cc) (was_member (ev_body ev)) of
               None \<Rightarrow> Throws TypeError \<sigma>
             | Some mr \<Rightarrow>
                (let \<sigma>1 = \<sigma>\<lparr>member_heap := (member_heap \<sigma>)
                              (mr := (member_heap \<sigma> mr)\<lparr>transferred_to := new_conversation\<rparr>)\<rparr>;
                     \<sigma>2 = setupConversationObject nxmCall new_conversation \<sigma>1;
                     \<sigma>3 = \<sigma>2\<lparr>call_heap := (call_heap \<sigma>2)
                              (nxmCall := (call_heap \<sigma>2 nxmCall)\<lparr>transferred := True\<rparr>)\<rparr>;
                     \<sigma>4 = \<sigma>3\<lparr>calls := (calls \<sigma>3)(ev_cid ev \<mapsto> nxmCall)\<rparr>;
                     \<sigma>5 = \<sigma>4\<lparr>calls := (calls \<sigma>4)(b_transferred_from (ev_body ev) := None)\<rparr> in
                 case old_conversation of
                   None \<Rightarrow> Returns () \<sigma>5
                 | Some oc \<Rightarrow> copyTransferredMedia oc new_conversation ev \<sigma>5))))"

text \<open>No two keys of a map of references hold the same reference.\<close>

definition one_key_per_ref :: "(jsval \<rightharpoonup> ref) \<Rightarrow> bool" where
  "one_key_per_ref m = (\<forall>k k' r. m k = Some r \<and> m k' = Some r \<longrightarrow> k = k')"

section \<open>Fixtures: a transfer and a server call\<close>

text \<open>
  Two conversations, each with its own member, and an answered call registered under the
  old one; the event transfers member MEM-1 of the old conversation to the new one.
\<close>

definition transfer_store :: store where
  "transfer_store = new_store\<lparr>
     conversations := [JStr ''CON-old'' \<mapsto> 0, JStr ''CON-new'' \<mapsto> 1],
     calls := [JStr ''CON-old'' \<mapsto> 0],
     conv_heap := (conv_heap new_store)
       (0 := blank_conversation\<lparr>conv_id := JStr ''CON-old'', me := Some 0,
                                  members := [JStr ''MEM-1'' \<mapsto> 0]\<rparr>,
        1 := blank_conversation\<lparr>conv_id := JStr ''CON-new'', me := Some 1,
                                  members := [JStr ''MEM-2'' \<mapsto> 1]\<rparr>),
     call_heap := (call_heap new_store)
       (0 := new_nxmCall\<lparr>status := JStr ''answered'', call_conversation := Some 0\<rparr>),
     member_heap := (member_heap new_store)
       (0 := (new_member 0)\<lparr>m_id := JStr ''MEM-1''\<rparr>,
        1 := (new_member 1)\<lparr>m_id := JStr ''MEM-2''\<rparr>)\<rparr>"

definition transfer_event :: event where
  "transfer_event =
     (blank_event ''rtc:transfer'')\<lparr>ev_cid := JStr ''CON-new'', ev_from := JStr ''MEM-2'',
        ev_body := blank_body\<lparr>b_transferred_from := JStr ''CON-old'',
                                was_member := JStr ''MEM-1''\<rparr>\<rparr>"




section \<open>Verified properties\<close>

subsection \<open>The call status state machine\<close>

lemma isValidStatusTransition_table:
  assumes "status c = status_of from"
  shows "isValidStatusTransition c (JStr (CALL_STATUS to)) = Inr (permitted_flow_table from to)"
proof (cases "from")
  case None
  with assms show ?thesis
    by (cases to) (simp_all add: isValidStatusTransition_def)
next
  case (Some f)
  with assms have st: "status c = JStr (CALL_STATUS f)" by simp
  show ?thesis unfolding Some
    by (cases f; cases to)
       (simp_all add: isValidStatusTransition_def st Let_def toUpperCase_def upper_char_def
          STATUS_PERMITTED_FLOW_def)
qed

text \<open>
  C1. Setting the status of a call that is uninitialised or in status \<open>from\<close> to \<open>to\<close>:
  when the pair is in the permitted-flow table the new status is assigned and exactly one
  \<open>call:status:changed\<close> is emitted on the application, and nothing else changes; when
  it is not (a transition to the current status and every transition out of a terminal
  status included) the calls and the emissions are as before and only a warning is logged.
\<close>

theorem C1_setStatusAndEmit_follows_table:
  assumes "status (call_heap \<sigma> this) = status_of from"
  shows "setStatusAndEmit this (JStr (CALL_STATUS to)) \<sigma> =
    (if permitted_flow_table from to
     then Returns () (\<sigma>\<lparr>call_heap := (call_heap \<sigma>)
                          (this := (call_heap \<sigma> this)\<lparr>status := JStr (CALL_STATUS to)\<rparr>),
                       emitted := emitted \<sigma> @ [Emit OnApplication ''call:status:changed'' (Some this)]\<rparr>)
     else Returns () (\<sigma>\<lparr>log := log \<sigma> @
                          [refused_line (status (call_heap \<sigma> this)) (JStr (CALL_STATUS to))]\<rparr>))"
  by (simp add: setStatusAndEmit_def isValidStatusTransition_table [OF assms] refused_line_def)

theorem C1_witness:
  "status (call_heap (store_with_call (new_nxmCall\<lparr>status := JStr ''started''\<rparr>)) 0) = status_of (Some STARTED)
   \<and> threw (setStatusAndEmit 0 (JStr (CALL_STATUS RINGING))
         (store_with_call (new_nxmCall\<lparr>status := JStr ''started''\<rparr>))) = None
   \<and> status (call_heap (final_store (setStatusAndEmit 0 (JStr (CALL_STATUS RINGING))
         (store_with_call (new_nxmCall\<lparr>status := JStr ''started''\<rparr>)))) 0) = JStr ''ringing''
   \<and> emitted (final_store (setStatusAndEmit 0 (JStr (CALL_STATUS RINGING))
         (store_with_call (new_nxmCall\<lparr>status := JStr ''started''\<rparr>)))) =
       [Emit OnApplication ''call:status:changed'' (Some 0)]"
  using C1_setStatusAndEmit_follows_table
    [of "store_with_call (new_nxmCall\<lparr>status := JStr ''started''\<rparr>)" 0 "Some STARTED" RINGING]
  by (simp add: store_with_call_def new_store_def new_nxmCall_def)

lemma isValidStatusTransition_returns:
  "truthy st \<Longrightarrow> string_or_falsy (status c) \<Longrightarrow> \<exists>b. isValidStatusTransition c st = Inr b"
  by (cases "status c") (auto simp: isValidStatusTransition_def Let_def split: option.splits)

text \<open>
  C7, as the code has it. With a current status that is falsy or a string: for a truthy
  status argument set-status-and-emit never throws, and a refused transition leaves the
  store as it was but for one warning in the log; for a falsy status argument the guard
  of the validation throws a \<open>NexmoClientError\<close>, which leaves set-status-and-emit with
  the store untouched.
\<close>

theorem C7_truthy_status_never_throws:
  assumes "string_or_falsy (status (call_heap \<sigma> this))"
  shows "(truthy st \<longrightarrow>
            threw (setStatusAndEmit this st \<sigma>) = None \<and>
            (isValidStatusTransition (call_heap \<sigma> this) st = Inr False \<longrightarrow>
               final_store (setStatusAndEmit this st \<sigma>) =
                 \<sigma>\<lparr>log := log \<sigma> @ [refused_line (status (call_heap \<sigma> this)) st]\<rparr>)) \<and>
         (\<not> truthy st \<longrightarrow>
            (\<exists>m. threw (setStatusAndEmit this st \<sigma>) = Some (NexmoClientError m)) \<and>
            final_store (setStatusAndEmit this st \<sigma>) = \<sigma>)"
proof (cases "truthy st")
  case True
  then obtain b where "isValidStatusTransition (call_heap \<sigma> this) st = Inr b"
    using isValidStatusTransition_returns [OF _ assms] by blast
  with True show ?thesis
    by (cases b) (simp_all add: setStatusAndEmit_def refused_line_def)
next
  case False
  then show ?thesis
    by (simp add: setStatusAndEmit_def isValidStatusTransition_def)
qed

theorem C7_witness:
  "truthy (JStr ''started'') \<and>
   string_or_falsy (status (call_heap (store_with_call (new_nxmCall\<lparr>status := JStr ''completed''\<rparr>)) 0)) \<and>
   threw (setStatusAndEmit 0 (JStr ''started'')
        (store_with_call (new_nxmCall\<lparr>status := JStr ''completed''\<rparr>))) = None \<and>
   status (call_heap (final_store (setStatusAndEmit 0 (JStr ''started'')
        (store_with_call (new_nxmCall\<lparr>status := JStr ''completed''\<rparr>)))) 0) = JStr ''completed'' \<and>
   emitted (final_store (setStatusAndEmit 0 (JStr ''started'')
        (store_with_call (new_nxmCall\<lparr>status := JStr ''completed''\<rparr>)))) = [] \<and>
   log (final_store (setStatusAndEmit 0 (JStr ''started'')
        (store_with_call (new_nxmCall\<lparr>status := JStr ''completed''\<rparr>)))) =
      [(''warn'', ''status attempt switch from completed to started'')]"
proof -
  have v: "isValidStatusTransition
             (call_heap (store_with_call (new_nxmCall\<lparr>status := JStr ''completed''\<rparr>)) 0)
             (JStr ''started'') = Inr False"
    by (simp add: isValidStatusTransition_def store_with_call_def new_store_def new_nxmCall_def
        Let_def toUpperCase_def upper_char_def STATUS_PERMITTED_FLOW_def)
  show ?thesis
    using C7_truthy_status_never_throws
      [of "store_with_call (new_nxmCall\<lparr>status := JStr ''completed''\<rparr>)" 0 "JStr ''started''"] v
    by (simp add: store_with_call_def new_store_def new_nxmCall_def refused_line_def)
qed

text \<open>
  C7 as stated fails: with \<open>null\<close> as the status argument the validation throws, and
  the exception leaves set-status-and-emit.
\<close>

theorem C7_counterexample:
  "threw (setStatusAndEmit 0 JNull new_store) =
     Some (NexmoClientError (''Provide the status to validate the transition from '' @
                             [CHR 0x27] @ ''null'' @ [CHR 0x27]))"
  by (simp add: setStatusAndEmit_def isValidStatusTransition_def new_store_def new_nxmCall_def)

lemma status_of_eq_CALL_STATUS: "(status_of from = JStr (CALL_STATUS s)) = (from = Some s)"
  by (cases "from"; cases s) (auto elim: CALL_STATUS.elims)

lemma setStatusAndEmit_enum:
  assumes "status (call_heap \<sigma> this) = status_of from"
  shows "setStatusAndEmit this (JStr (CALL_STATUS to)) \<sigma> =
    (if permitted_flow_table from to
     then Returns () (\<sigma>\<lparr>call_heap := (call_heap \<sigma>)
                          (this := (call_heap \<sigma> this)\<lparr>status := JStr (CALL_STATUS to)\<rparr>),
                       emitted := emitted \<sigma> @ [Emit OnApplication ''call:status:changed'' (Some this)]\<rparr>)
     else Returns () (\<sigma>\<lparr>log := log \<sigma> @
                          [refused_line (status (call_heap \<sigma> this)) (JStr (CALL_STATUS to))]\<rparr>))"
  by (simp add: setStatusAndEmit_def isValidStatusTransition_table [OF assms] refused_line_def)

text \<open>
  C2, as the code has it. An \<open>rtc:hangup\<close> for a call whose conversation, if it has one,
  has its own member set (otherwise reading \<open>me.id\<close> throws) asks for COMPLETED when the
  status is ANSWERED, and otherwise for UNANSWERED exactly when the event is local and the
  call outbound or the event is remote and the call inbound, REJECTED in the other two
  combinations. The request takes effect, with one \<open>call:status:changed\<close>, when the call
  is uninitialised, STARTED, RINGING or ANSWERED; from a terminal status the table refuses
  it and the status stays.
\<close>

theorem C2_rtc_hangup:
  assumes "ev_type ev = ''rtc:hangup''"
      and "isEventFromMe \<sigma> (call_heap \<sigma> this) ev = Inr fromMe"
      and "status (call_heap \<sigma> this) = status_of from"
  shows "handleStatusChange this ev en \<sigma> =
    (let target = rtc_hangup_status from fromMe (direction (call_heap \<sigma> this) = OUTBOUND) in
     if from \<in> {None, Some STARTED, Some RINGING, Some ANSWERED}
     then Returns () (\<sigma>\<lparr>call_heap := (call_heap \<sigma>)
                          (this := (call_heap \<sigma> this)\<lparr>status := JStr (CALL_STATUS target)\<rparr>),
                       emitted := emitted \<sigma> @ [Emit OnApplication ''call:status:changed'' (Some this)]\<rparr>)
     else Returns () (\<sigma>\<lparr>log := log \<sigma> @
                          [refused_line (status (call_heap \<sigma> this)) (JStr (CALL_STATUS target))]\<rparr>))"
proof -
  have perm: "permitted_flow_table from (rtc_hangup_status from fromMe ob) =
        (from \<in> {None, Some STARTED, Some RINGING, Some ANSWERED})" for ob
  proof (cases "from")
    case None
    then show ?thesis by simp
  next
    case (Some f)
    then show ?thesis by (cases f) (auto simp: rtc_hangup_status_def)
  qed
  have ans: "(status_of from = JStr ''answered'') = (from = Some ANSWERED)"
    using status_of_eq_CALL_STATUS [of "from" ANSWERED] by simp
  have tgt: "JStr (CALL_STATUS (if from = Some ANSWERED then COMPLETED else unansweredOrRejected fromMe ob))
        = JStr (CALL_STATUS (rtc_hangup_status from fromMe ob))" for ob
    by (simp add: rtc_hangup_status_def unansweredOrRejected_def)
  have step: "handleStatusChange this ev en \<sigma> =
      setStatusAndEmit this (JStr (CALL_STATUS
        (rtc_hangup_status from fromMe (direction (call_heap \<sigma> this) = OUTBOUND)))) \<sigma>"
    by (simp add: handleStatusChange_def assms Let_def ans rtc_hangup_status_def
          unansweredOrRejected_def)
  show ?thesis
    unfolding step Let_def setStatusAndEmit_enum [OF assms(3)] perm ..
qed

theorem C2_witness:
  "ev_type (blank_event ''rtc:hangup'') = ''rtc:hangup'' \<and>
   isEventFromMe (store_with_call (new_nxmCall\<lparr>status := JStr ''started'', direction := OUTBOUND\<rparr>))
     (call_heap (store_with_call (new_nxmCall\<lparr>status := JStr ''started'', direction := OUTBOUND\<rparr>)) 0)
     (blank_event ''rtc:hangup'') = Inr True \<and>
   status (call_heap (store_with_call (new_nxmCall\<lparr>status := JStr ''started'', direction := OUTBOUND\<rparr>)) 0)
     = status_of (Some STARTED) \<and>
   threw (handleStatusChange 0 (blank_event ''rtc:hangup'') None
     (store_with_call (new_nxmCall\<lparr>status := JStr ''started'', direction := OUTBOUND\<rparr>))) = None \<and>
   status (call_heap (final_store (handleStatusChange 0 (blank_event ''rtc:hangup'') None
     (store_with_call (new_nxmCall\<lparr>status := JStr ''started'', direction := OUTBOUND\<rparr>)))) 0)
     = JStr ''unanswered''"
  using C2_rtc_hangup [of "blank_event ''rtc:hangup''"
      "store_with_call (new_nxmCall\<lparr>status := JStr ''started'', direction := OUTBOUND\<rparr>)"
      0 True "Some STARTED" None]
  by (simp add: blank_event_def isEventFromMe_def store_with_call_def new_store_def new_nxmCall_def
        rtc_hangup_status_def)

text \<open>
  C2 as stated fails for a call that is not ANSWERED but already in a terminal status: an
  outbound call in COMPLETED that receives a local \<open>rtc:hangup\<close> stays COMPLETED, it
  does not become UNANSWERED.
\<close>

theorem C2_counterexample:
  "status (call_heap (store_with_call (new_nxmCall\<lparr>status := JStr ''completed'', direction := OUTBOUND\<rparr>)) 0)
     \<noteq> JStr (CALL_STATUS ANSWERED) \<and>
   isEventFromMe (store_with_call (new_nxmCall\<lparr>status := JStr ''completed'', direction := OUTBOUND\<rparr>))
     (call_heap (store_with_call (new_nxmCall\<lparr>status := JStr ''completed'', direction := OUTBOUND\<rparr>)) 0)
     (blank_event ''rtc:hangup'') = Inr True \<and>
   direction (call_heap (store_with_call (new_nxmCall\<lparr>status := JStr ''completed'', direction := OUTBOUND\<rparr>)) 0)
     = OUTBOUND \<and>
   status (call_heap (final_store (handleStatusChange 0 (blank_event ''rtc:hangup'') None
     (store_with_call (new_nxmCall\<lparr>status := JStr ''completed'', direction := OUTBOUND\<rparr>)))) 0)
     = JStr ''completed''"
  by (simp add: handleStatusChange_def setStatusAndEmit_def isValidStatusTransition_def
        blank_event_def isEventFromMe_def store_with_call_def new_store_def new_nxmCall_def
        unansweredOrRejected_def Let_def toUpperCase_def upper_char_def STATUS_PERMITTED_FLOW_def)

text \<open>
  C6, as the code has it. A \<open>member:media\<close> event (same proviso on the conversation's
  own member) does nothing when the status is ANSWERED or the event has no audio.
  Otherwise the leg id is captured exactly when the event is local and carries a channel;
  and when a leg id is then known and the event is not a local one on an outbound call,
  ANSWERED is asked for: it takes effect, with one \<open>call:status:changed\<close>, from
  uninitialised, STARTED or RINGING, and is refused (status kept, warning logged) from a
  terminal status.
\<close>

theorem C6_member_media:
  assumes "ev_type ev = ''member:media''"
      and "isEventFromMe \<sigma> (call_heap \<sigma> this) ev = Inr fromMe"
      and "status (call_heap \<sigma> this) = status_of from"
  shows "handleStatusChange this ev en \<sigma> =
    (let c = call_heap \<sigma> this;
         leg = media_leg_id c ev fromMe;
         c1 = c\<lparr>call_id := leg\<rparr> in
     if from = Some ANSWERED \<or> \<not> truthy (audio (ev_body ev)) then Returns () \<sigma>
     else if (fromMe \<and> direction c = OUTBOUND) \<or> \<not> truthy leg
       then Returns () (\<sigma>\<lparr>call_heap := (call_heap \<sigma>)(this := c1)\<rparr>)
     else if from \<in> {None, Some STARTED, Some RINGING}
       then Returns () (\<sigma>\<lparr>call_heap := (call_heap \<sigma>)
                            (this := c1\<lparr>status := JStr (CALL_STATUS ANSWERED)\<rparr>),
                          emitted := emitted \<sigma> @ [Emit OnApplication ''call:status:changed'' (Some this)]\<rparr>)
     else Returns () (\<sigma>\<lparr>call_heap := (call_heap \<sigma>)(this := c1),
                        log := log \<sigma> @ [refused_line (status c) (JStr (CALL_STATUS ANSWERED))]\<rparr>))"
proof -
  have ans: "(status_of from = JStr ''answered'') = (from = Some ANSWERED)"
    using status_of_eq_CALL_STATUS [of "from" ANSWERED] by simp
  have perm: "permitted_flow_table from ANSWERED = (from \<in> {None, Some STARTED, Some RINGING})"
  proof (cases "from")
    case None
    then show ?thesis by simp
  next
    case (Some f)
    then show ?thesis by (cases f) auto
  qed
  define \<sigma>1 where "\<sigma>1 = \<sigma>\<lparr>call_heap := (call_heap \<sigma>)
      (this := (call_heap \<sigma> this)\<lparr>call_id := media_leg_id (call_heap \<sigma> this) ev fromMe\<rparr>)\<rparr>"
  have st1: "status (call_heap \<sigma>1 this) = status_of from"
    by (simp add: \<sigma>1_def assms)
  have set1: "setStatusAndEmit this (JStr (CALL_STATUS ANSWERED)) \<sigma>1 =
     (if from \<in> {None, Some STARTED, Some RINGING}
      then Returns () (\<sigma>1\<lparr>call_heap := (call_heap \<sigma>1)
                          (this := (call_heap \<sigma>1 this)\<lparr>status := JStr (CALL_STATUS ANSWERED)\<rparr>),
                       emitted := emitted \<sigma>1 @ [Emit OnApplication ''call:status:changed'' (Some this)]\<rparr>)
      else Returns () (\<sigma>1\<lparr>log := log \<sigma>1 @
                          [refused_line (status (call_heap \<sigma>1 this)) (JStr (CALL_STATUS ANSWERED))]\<rparr>))"
    unfolding setStatusAndEmit_enum [OF st1] perm ..
  have idle: "\<sigma>\<lparr>call_heap := (call_heap \<sigma>)(this := (call_heap \<sigma> this)\<lparr>call_id := call_id (call_heap \<sigma> this)\<rparr>)\<rparr> = \<sigma>"
    by simp
  have step: "handleStatusChange this ev en \<sigma> =
     (if from = Some ANSWERED \<or> \<not> truthy (audio (ev_body ev)) then Returns () \<sigma>
      else if (fromMe \<and> direction (call_heap \<sigma> this) = OUTBOUND)
               \<or> \<not> truthy (media_leg_id (call_heap \<sigma> this) ev fromMe)
        then Returns () \<sigma>1
      else setStatusAndEmit this (JStr (CALL_STATUS ANSWERED)) \<sigma>1)"
    by (cases "channel (ev_body ev)")
       (auto simp add: handleStatusChange_def assms Let_def ans \<sigma>1_def media_leg_id_def)
  show ?thesis
    unfolding step set1
    by (simp add: \<sigma>1_def Let_def assms(3))
qed

theorem C6_witness:
  "ev_type (media_event (JStr ''leg-1'')) = ''member:media'' \<and>
   isEventFromMe (store_with_call (new_nxmCall\<lparr>status := JStr ''started''\<rparr>))
     (call_heap (store_with_call (new_nxmCall\<lparr>status := JStr ''started''\<rparr>)) 0)
     (media_event (JStr ''leg-1'')) = Inr True \<and>
   status (call_heap (store_with_call (new_nxmCall\<lparr>status := JStr ''started''\<rparr>)) 0)
     = status_of (Some STARTED) \<and>
   threw (handleStatusChange 0 (media_event (JStr ''leg-1'')) None
     (store_with_call (new_nxmCall\<lparr>status := JStr ''started''\<rparr>))) = None \<and>
   call_id (call_heap (final_store (handleStatusChange 0 (media_event (JStr ''leg-1'')) None
     (store_with_call (new_nxmCall\<lparr>status := JStr ''started''\<rparr>)))) 0) = JStr ''leg-1'' \<and>
   status (call_heap (final_store (handleStatusChange 0 (media_event (JStr ''leg-1'')) None
     (store_with_call (new_nxmCall\<lparr>status := JStr ''started''\<rparr>)))) 0) = JStr ''answered''"
  using C6_member_media [of "media_event (JStr ''leg-1'')"
      "store_with_call (new_nxmCall\<lparr>status := JStr ''started''\<rparr>)" 0 True "Some STARTED" None]
  by (simp add: media_event_def blank_event_def blank_body_def isEventFromMe_def store_with_call_def
        new_store_def new_nxmCall_def media_leg_id_def Let_def)

text \<open>
  C6 as stated fails from a terminal status: an inbound call in COMPLETED receives a local
  \<open>member:media\<close> with audio and a channel; the leg id is captured, so a leg id is known
  and the event is not a local-outbound one, yet the call does not become ANSWERED.
\<close>

theorem C6_counterexample:
  "status (call_heap (store_with_call (new_nxmCall\<lparr>status := JStr ''completed''\<rparr>)) 0)
     \<noteq> JStr (CALL_STATUS ANSWERED) \<and>
   truthy (audio (ev_body (media_event (JStr ''leg-1'')))) \<and>
   isEventFromMe (store_with_call (new_nxmCall\<lparr>status := JStr ''completed''\<rparr>))
     (call_heap (store_with_call (new_nxmCall\<lparr>status := JStr ''completed''\<rparr>)) 0)
     (media_event (JStr ''leg-1'')) = Inr True \<and>
   direction (call_heap (store_with_call (new_nxmCall\<lparr>status := JStr ''completed''\<rparr>)) 0) = INBOUND \<and>
   call_id (call_heap (final_store (handleStatusChange 0 (media_event (JStr ''leg-1'')) None
     (store_with_call (new_nxmCall\<lparr>status := JStr ''completed''\<rparr>)))) 0) = JStr ''leg-1'' \<and>
   status (call_heap (final_store (handleStatusChange 0 (media_event (JStr ''leg-1'')) None
     (store_with_call (new_nxmCall\<lparr>status := JStr ''completed''\<rparr>)))) 0) = JStr ''completed''"
  by (simp add: handleStatusChange_def setStatusAndEmit_def isValidStatusTransition_def
        media_event_def blank_event_def blank_body_def isEventFromMe_def store_with_call_def
        new_store_def new_nxmCall_def Let_def toUpperCase_def upper_char_def STATUS_PERMITTED_FLOW_def)

subsection \<open>Member call status\<close>




















subsection \<open>The conversation's sequence number\<close>




subsection \<open>Client validation errors\<close>

text \<open>
  C9. \<open>Conversation.invite\<close> with no params, or with params whose \<open>id\<close> and
  \<open>user_name\<close> are both falsy, rejects with \<open>error:invite:missing:params\<close>;
  \<open>Media.sendDTMF\<close> with a digit that \<open>validateDTMF\<close> refuses rejects with
  \<open>error:audio:dtmf:invalid-digit\<close> (wrapped by the method's own \<open>catch\<close>); in both
  cases the store, and so the list of requests sent, is as before.
\<close>

theorem C9_validation_errors:
  "((case params of None \<Rightarrow> True | Some p \<Rightarrow> \<not> truthy (p_id p) \<and> \<not> truthy (p_user_name p)) \<longrightarrow>
      invite this params response \<sigma> = Throws (NexmoClientError ''error:invite:missing:params'') \<sigma> \<and>
      network (final_store (invite this params response \<sigma>)) = network \<sigma>) \<and>
   (\<not> validateDTMF digit \<longrightarrow>
      sendDTMF this digit response' \<sigma> =
        Throws (NexmoApiError (NexmoClientError ''error:audio:dtmf:invalid-digit'')) \<sigma> \<and>
      network (final_store (sendDTMF this digit response' \<sigma>)) = network \<sigma>)"
  by (simp add: invite_def sendDTMF_def)

theorem C9_witness:
  "(case Some \<lparr>p_id = JUndefined, p_user_name = JStr []\<rparr> of None \<Rightarrow> True
      | Some p \<Rightarrow> \<not> truthy (p_id p) \<and> \<not> truthy (p_user_name p)) \<and>
   \<not> validateDTMF (JStr ''12x'') \<and>
   invite 0 (Some \<lparr>p_id = JUndefined, p_user_name = JStr []\<rparr>) (Inr (JStr ''MEM-1'')) store_with_me
     = Throws (NexmoClientError ''error:invite:missing:params'') store_with_me \<and>
   sendDTMF 0 (JStr ''12x'') (Inr (JNum 7)) store_with_me
     = Throws (NexmoApiError (NexmoClientError ''error:audio:dtmf:invalid-digit'')) store_with_me"
  using C9_validation_errors [of "Some \<lparr>p_id = JUndefined, p_user_name = JStr []\<rparr>" 0
      "Inr (JStr ''MEM-1'')" store_with_me "JStr ''12x''" "Inr (JNum 7)"]
  by (simp add: dtmf_chars_def)

subsection \<open>Mute and its rollback\<close>

text \<open>
  When the send fails, every track is left with \<open>enabled = mute\<close>, whatever it was
  before the call.
\<close>

lemma setMediaTracksAndMute_failure:
  "fst (setMediaTracksAndMute this rtc tracks mute ty (Inl e) \<sigma>) = map (\<lambda>t. mute) tracks"
  by (simp add: setMediaTracksAndMute_def enableMediaTracks_def Let_def split: option.splits)

text \<open>
  C8 at a failing input: one audio track that is already disabled, \<open>mute = true\<close>, and a
  send that fails. The track was disabled before the call and is enabled after it, while
  the error is re-raised.
\<close>

theorem C8_failed_mute_enables_a_muted_track:
  "fst (setMediaTracksAndMute 0 (JStr ''leg-1'') [False] True ''audio:mute:on''
          (Inl (NetworkError JNull)) store_with_me) = [True] \<and>
   threw (snd (setMediaTracksAndMute 0 (JStr ''leg-1'') [False] True ''audio:mute:on''
          (Inl (NetworkError JNull)) store_with_me)) = Some (NexmoApiError (NetworkError JNull))"
  by (simp add: setMediaTracksAndMute_def enableMediaTracks_def Let_def store_with_me_def
        new_store_def blank_conversation_def)

subsection \<open>Transfer of a call\<close>

lemma setup_calls [simp]: "calls (setupConversationObject c conv \<sigma>) = calls \<sigma>"
  by (simp add: setupConversationObject_def Let_def split: option.splits)

lemma setup_member_heap [simp]: "member_heap (setupConversationObject c conv \<sigma>) = member_heap \<sigma>"
  by (simp add: setupConversationObject_def Let_def split: option.splits)

lemma setup_emitted [simp]: "emitted (setupConversationObject c conv \<sigma>) = emitted \<sigma>"
  by (simp add: setupConversationObject_def Let_def split: option.splits)

lemma setup_conv_heap [simp]: "conv_heap (setupConversationObject c conv \<sigma>) = conv_heap \<sigma>"
  by (simp add: setupConversationObject_def Let_def split: option.splits)

lemma setup_draft [simp]: "call_draft_list (setupConversationObject c conv \<sigma>) = call_draft_list \<sigma>"
  by (simp add: setupConversationObject_def Let_def split: option.splits)

lemma setup_conversation:
  "call_conversation (call_heap (setupConversationObject c (Some cr) \<sigma>) c) = Some cr"
  by (simp add: setupConversationObject_def Let_def split: option.splits)

lemma setup_status [simp]:
  "status (call_heap (setupConversationObject c conv \<sigma>) r) = status (call_heap \<sigma> r)"
  by (simp add: setupConversationObject_def Let_def split: option.splits)

lemma setup_direction [simp]:
  "direction (call_heap (setupConversationObject c conv \<sigma>) r) = direction (call_heap \<sigma> r)"
  by (simp add: setupConversationObject_def Let_def split: option.splits)

lemma copy_calls: "calls (final_store (copyTransferredMedia oc nc ev \<sigma>)) = calls \<sigma>"
  by (simp add: copyTransferredMedia_def Let_def split: option.splits)

lemma copy_emitted: "emitted (final_store (copyTransferredMedia oc nc ev \<sigma>)) = emitted \<sigma>"
  by (simp add: copyTransferredMedia_def Let_def split: option.splits)

lemma copy_call_heap: "call_heap (final_store (copyTransferredMedia oc nc ev \<sigma>)) = call_heap \<sigma>"
  by (simp add: copyTransferredMedia_def Let_def split: option.splits)

lemma copy_transferred_to:
  "transferred_to (member_heap (final_store (copyTransferredMedia oc nc ev \<sigma>)) r) =
   transferred_to (member_heap \<sigma> r)"
  by (simp add: copyTransferredMedia_def Let_def split: option.splits)

lemma one_key_move:
  assumes "one_key_per_ref m" and "m old = Some r" and "new \<noteq> old"
  shows "one_key_per_ref ((m(new \<mapsto> r))(old := None))"
    and "((m(new \<mapsto> r))(old := None)) k = Some r \<longleftrightarrow> k = new"
  using assms unfolding one_key_per_ref_def by (auto split: if_splits)

text \<open>
  C4. An \<open>rtc:transfer\<close> for a known call, bound to a conversation that has the
  transferred member, towards a known conversation with another id, in an application
  where no two keys of \<open>calls\<close> hold the same call: afterwards the call is in
  \<open>calls\<close> under the new conversation id and under no other key, the old key is
  gone, still no two keys hold the same call, the call is bound to the new conversation,
  and the transferred member has \<open>transferred_to\<close> set to the new conversation.
  Nothing is emitted on the way, so no listener runs between the insertion under the new
  key and the removal of the old one. This holds for the store the method leaves, whether
  it returns or throws in its last part (copying the media state).
\<close>

theorem C4_rtc_transfer_relocates_call:
  assumes known: "calls \<sigma> (b_transferred_from (ev_body ev)) = Some nxmCall"
      and bound: "call_conversation (call_heap \<sigma> nxmCall) = Some old_c"
      and memb: "members (conv_heap \<sigma> old_c) (was_member (ev_body ev)) = Some mr"
      and new: "conversations \<sigma> (ev_cid ev) = Some new_c"
      and diff: "ev_cid ev \<noteq> b_transferred_from (ev_body ev)"
      and inj: "one_key_per_ref (calls \<sigma>)"
  shows "(\<forall>k. calls (final_store (processRtcTransfer ev \<sigma>)) k = Some nxmCall \<longleftrightarrow> k = ev_cid ev) \<and>
         calls (final_store (processRtcTransfer ev \<sigma>)) (b_transferred_from (ev_body ev)) = None \<and>
         one_key_per_ref (calls (final_store (processRtcTransfer ev \<sigma>))) \<and>
         call_conversation (call_heap (final_store (processRtcTransfer ev \<sigma>)) nxmCall) = Some new_c \<and>
         transferred_to (member_heap (final_store (processRtcTransfer ev \<sigma>)) mr) = Some new_c \<and>
         emitted (final_store (processRtcTransfer ev \<sigma>)) = emitted \<sigma>"
proof -
  let ?old = "b_transferred_from (ev_body ev)"
  let ?\<sigma>' = "final_store (processRtcTransfer ev \<sigma>)"
  have calls': "calls ?\<sigma>' = ((calls \<sigma>)(ev_cid ev \<mapsto> nxmCall))(?old := None)"
    by (simp add: processRtcTransfer_def Let_def known bound memb new copy_calls
          split: option.splits)
  have conv: "call_conversation (call_heap ?\<sigma>' nxmCall) = Some new_c"
    by (simp add: processRtcTransfer_def Let_def known bound memb new copy_call_heap
          setup_conversation split: option.splits)
  have mark: "transferred_to (member_heap ?\<sigma>' mr) = Some new_c"
    by (simp add: processRtcTransfer_def Let_def known bound memb new copy_transferred_to
          split: option.splits)
  have emit: "emitted ?\<sigma>' = emitted \<sigma>"
    by (simp add: processRtcTransfer_def Let_def known bound memb new copy_emitted
          split: option.splits)
  show ?thesis
    using one_key_move [OF inj known diff] conv mark emit
    by (simp add: calls')
qed

theorem C4_witness:
  "calls transfer_store (b_transferred_from (ev_body transfer_event)) = Some 0 \<and>
   call_conversation (call_heap transfer_store 0) = Some 0 \<and>
   members (conv_heap transfer_store 0) (was_member (ev_body transfer_event)) = Some 0 \<and>
   conversations transfer_store (ev_cid transfer_event) = Some 1 \<and>
   ev_cid transfer_event \<noteq> b_transferred_from (ev_body transfer_event) \<and>
   one_key_per_ref (calls transfer_store) \<and>
   calls (final_store (processRtcTransfer transfer_event transfer_store)) (JStr ''CON-new'') = Some 0 \<and>
   calls (final_store (processRtcTransfer transfer_event transfer_store)) (JStr ''CON-old'') = None \<and>
   one_key_per_ref (calls (final_store (processRtcTransfer transfer_event transfer_store))) \<and>
   call_conversation (call_heap (final_store (processRtcTransfer transfer_event transfer_store)) 0) = Some 1 \<and>
   transferred_to (member_heap (final_store (processRtcTransfer transfer_event transfer_store)) 0) = Some 1"
proof -
  have h1: "calls transfer_store (b_transferred_from (ev_body transfer_event)) = Some 0"
    by (simp add: transfer_store_def transfer_event_def blank_body_def)
  have h2: "call_conversation (call_heap transfer_store 0) = Some 0"
    by (simp add: transfer_store_def)
  have h3: "members (conv_heap transfer_store 0) (was_member (ev_body transfer_event)) = Some 0"
    by (simp add: transfer_store_def transfer_event_def blank_body_def)
  have h4: "conversations transfer_store (ev_cid transfer_event) = Some 1"
    by (simp add: transfer_store_def transfer_event_def blank_event_def)
  have h5: "ev_cid transfer_event \<noteq> b_transferred_from (ev_body transfer_event)"
    by (simp add: transfer_event_def blank_event_def blank_body_def)
  have h6: "one_key_per_ref (calls transfer_store)"
    by (simp add: one_key_per_ref_def transfer_store_def split: if_splits)
  have e: "ev_cid transfer_event = JStr ''CON-new''"
          "b_transferred_from (ev_body transfer_event) = JStr ''CON-old''"
    by (simp_all add: transfer_event_def blank_event_def blank_body_def)
  show ?thesis
    using C4_rtc_transfer_relocates_call [OF h1 h2 h3 h4 h5 h6] h1 h2 h3 h4 h5 h6
    by (simp add: e)
qed

subsection \<open>Server calls: from the draft list to the calls\<close>







end
